theory Spec2Isabelle
  imports Main "HOL-Library.Word"
begin

section \<open>Sizes declared by the headers\<close>

text \<open>
  \<^verbatim>\<open>Packages/EcliptixOPAQUE/Sources/COpaqueClient/include/opaque.h\<close>, lines 9-23:
  the \<^verbatim>\<open>constexpr inline size_t\<close> constants of namespace
  \<^verbatim>\<open>ecliptix::security::opaque\<close>. A \<^verbatim>\<open>size_t\<close> that only ever holds these
  small literals is a natural number here.
\<close>

definition OPRF_SEED_LENGTH :: nat where "OPRF_SEED_LENGTH = 32"
definition PRIVATE_KEY_LENGTH :: nat where "PRIVATE_KEY_LENGTH = 32"
definition PUBLIC_KEY_LENGTH :: nat where "PUBLIC_KEY_LENGTH = 32"
definition MASTER_KEY_LENGTH :: nat where "MASTER_KEY_LENGTH = 32"
definition NONCE_LENGTH :: nat where "NONCE_LENGTH = 32"
definition MAC_LENGTH :: nat where "MAC_LENGTH = 64"
definition HASH_LENGTH :: nat where "HASH_LENGTH = 64"
definition ENVELOPE_LENGTH :: nat where "ENVELOPE_LENGTH = 176"
definition REGISTRATION_REQUEST_LENGTH :: nat where "REGISTRATION_REQUEST_LENGTH = 32"
definition REGISTRATION_RESPONSE_LENGTH :: nat where "REGISTRATION_RESPONSE_LENGTH = 96"
definition CREDENTIAL_REQUEST_LENGTH :: nat where "CREDENTIAL_REQUEST_LENGTH = 96"
definition CREDENTIAL_RESPONSE_LENGTH :: nat where "CREDENTIAL_RESPONSE_LENGTH = 208"
definition KE1_LENGTH :: nat where "KE1_LENGTH = 96"
definition KE2_LENGTH :: nat where "KE2_LENGTH = 336"
definition KE3_LENGTH :: nat where "KE3_LENGTH = 64"

text \<open>
  The six \<^verbatim>\<open>static_assert\<close>s of lines 25-32, each as the boolean the compiler
  evaluates. The literal 24 of the third one is the nonce size of
  \<^verbatim>\<open>crypto_secretbox\<close>, which its message names.
\<close>

definition crypto_secretbox_NONCEBYTES :: nat where
  "crypto_secretbox_NONCEBYTES = 24"

definition static_assert_key_lengths_match :: bool where
  "static_assert_key_lengths_match \<longleftrightarrow> PRIVATE_KEY_LENGTH = PUBLIC_KEY_LENGTH"

definition static_assert_private_key_32 :: bool where
  "static_assert_private_key_32 \<longleftrightarrow> PRIVATE_KEY_LENGTH = 32"

definition static_assert_nonce_secretbox :: bool where
  "static_assert_nonce_secretbox \<longleftrightarrow> NONCE_LENGTH \<ge> crypto_secretbox_NONCEBYTES"

definition static_assert_mac_64 :: bool where
  "static_assert_mac_64 \<longleftrightarrow> MAC_LENGTH = 64"

definition static_assert_credential_response :: bool where
  "static_assert_credential_response \<longleftrightarrow>
     CREDENTIAL_RESPONSE_LENGTH = PUBLIC_KEY_LENGTH + ENVELOPE_LENGTH"

definition static_assert_ke2 :: bool where
  "static_assert_ke2 \<longleftrightarrow>
     KE2_LENGTH = NONCE_LENGTH + PUBLIC_KEY_LENGTH + CREDENTIAL_RESPONSE_LENGTH + MAC_LENGTH"

text \<open>
  The segments of the two composite messages, in wire order. The KE2 segments are the
  summands of the last \<^verbatim>\<open>static_assert\<close>, in the order of the fields of
  \<^verbatim>\<open>struct KE2\<close> (\<^verbatim>\<open>responder.h\<close>, lines 11-17), where \<^verbatim>\<open>responder_public_key\<close> is
  the responder's ephemeral key of the exchange; the credential response segments are the
  summands of the \<^verbatim>\<open>static_assert\<close> before it.
\<close>

definition ke2_layout :: "nat list" where
  "ke2_layout = [NONCE_LENGTH, PUBLIC_KEY_LENGTH, CREDENTIAL_RESPONSE_LENGTH, MAC_LENGTH]"

definition KE2_fields :: "string list" where
  "KE2_fields =
     [''responder_nonce'', ''responder_public_key'', ''credential_response'',
      ''responder_mac'']"

definition credential_response_layout :: "nat list" where
  "credential_response_layout = [PUBLIC_KEY_LENGTH, ENVELOPE_LENGTH]"

text \<open>
  The byte offset at which each segment of a layout starts, followed by the offset just
  past the last segment (the length of the whole message).
\<close>

fun layout_offsets :: "nat \<Rightarrow> nat list \<Rightarrow> nat list" where
  "layout_offsets at [] = [at]"
| "layout_offsets at (n # ns) = at # layout_offsets (at + n) ns"

text \<open>
  \<^verbatim>\<open>Packages/EcliptixOPAQUE/Sources/COpaqueClient/include/opaque_client_c.h\<close>,
  lines 12-25: the macros of the C interface.
\<close>

definition OPAQUE_PRIVATE_KEY_LENGTH :: nat where "OPAQUE_PRIVATE_KEY_LENGTH = 32"
definition OPAQUE_PUBLIC_KEY_LENGTH :: nat where "OPAQUE_PUBLIC_KEY_LENGTH = 32"
definition OPAQUE_MASTER_KEY_LENGTH :: nat where "OPAQUE_MASTER_KEY_LENGTH = 32"
definition OPAQUE_NONCE_LENGTH :: nat where "OPAQUE_NONCE_LENGTH = 32"
definition OPAQUE_MAC_LENGTH :: nat where "OPAQUE_MAC_LENGTH = 64"
definition OPAQUE_HASH_LENGTH :: nat where "OPAQUE_HASH_LENGTH = 64"
definition OPAQUE_ENVELOPE_LENGTH :: nat where "OPAQUE_ENVELOPE_LENGTH = 176"
definition OPAQUE_REGISTRATION_REQUEST_LENGTH :: nat where
  "OPAQUE_REGISTRATION_REQUEST_LENGTH = 32"
definition OPAQUE_REGISTRATION_RESPONSE_LENGTH :: nat where
  "OPAQUE_REGISTRATION_RESPONSE_LENGTH = 96"
definition OPAQUE_CREDENTIAL_REQUEST_LENGTH :: nat where
  "OPAQUE_CREDENTIAL_REQUEST_LENGTH = 96"
definition OPAQUE_CREDENTIAL_RESPONSE_LENGTH :: nat where
  "OPAQUE_CREDENTIAL_RESPONSE_LENGTH = 208"
definition OPAQUE_KE1_LENGTH :: nat where "OPAQUE_KE1_LENGTH = 96"
definition OPAQUE_KE2_LENGTH :: nat where "OPAQUE_KE2_LENGTH = 336"
definition OPAQUE_KE3_LENGTH :: nat where "OPAQUE_KE3_LENGTH = 64"

text \<open>
  The sizes a header fixes for one build, as far as they depend on the envelope. Three
  headers under \<^verbatim>\<open>src/\<close> declare them:
  \<^item> \<^verbatim>\<open>Packages/.../include/opaque.h\<close> (lines 11-22),
  \<^item> \<^verbatim>\<open>Packages/.../include/opaque_client_c.h\<close> (lines 13-24),
  \<^item> \<^verbatim>\<open>ThirdParty/xcframeworks/OpaqueClient.xcframework/ios-arm64-simulator/Headers/opaque/opaque.h\<close>
    (lines 9-19), the earlier generation, whose envelope carries the 16-byte secretbox
    tag inline.
\<close>

record header_sizes =
  public_key_length :: nat
  nonce_length :: nat
  mac_length :: nat
  envelope_length :: nat
  credential_response_length :: nat
  ke2_length :: nat

definition packages_opaque_h :: header_sizes where
  "packages_opaque_h =
     \<lparr>public_key_length = PUBLIC_KEY_LENGTH, nonce_length = NONCE_LENGTH,
      mac_length = MAC_LENGTH, envelope_length = ENVELOPE_LENGTH,
      credential_response_length = CREDENTIAL_RESPONSE_LENGTH, ke2_length = KE2_LENGTH\<rparr>"

definition packages_opaque_client_c_h :: header_sizes where
  "packages_opaque_client_c_h =
     \<lparr>public_key_length = OPAQUE_PUBLIC_KEY_LENGTH, nonce_length = OPAQUE_NONCE_LENGTH,
      mac_length = OPAQUE_MAC_LENGTH, envelope_length = OPAQUE_ENVELOPE_LENGTH,
      credential_response_length = OPAQUE_CREDENTIAL_RESPONSE_LENGTH,
      ke2_length = OPAQUE_KE2_LENGTH\<rparr>"

definition xcframework_opaque_h :: header_sizes where
  "xcframework_opaque_h =
     \<lparr>public_key_length = 32, nonce_length = 32, mac_length = 64, envelope_length = 144,
      credential_response_length = 176, ke2_length = 304\<rparr>"

text \<open>
  A header follows the layout with an \<open>env\<close>-byte envelope when its envelope has that
  size and the two sizes derived from it are the sums the wire format prescribes.
\<close>

definition follows_layout :: "nat \<Rightarrow> header_sizes \<Rightarrow> bool" where
  "follows_layout env h \<longleftrightarrow>
     envelope_length h = env \<and>
     credential_response_length h = public_key_length h + env \<and>
     ke2_length h = nonce_length h + public_key_length h + (public_key_length h + env)
                    + mac_length h"

definition canonical_envelope :: nat where "canonical_envelope = 176"
definition legacy_envelope :: nat where "legacy_envelope = 144"

section \<open>Result codes\<close>

text \<open>
  \<^verbatim>\<open>enum class Result\<close> of \<^verbatim>\<open>Packages/.../include/opaque.h\<close> (lines 34-42) with the
  value of each enumerator, which is what \<^verbatim>\<open>static_cast<int>\<close> yields and what an
  operation reports as its integer status.
\<close>

datatype Result =
  Success | InvalidInput | CryptoError | MemoryError | ValidationError
  | AuthenticationError | InvalidPublicKey

fun Result_code :: "Result \<Rightarrow> int" where
  "Result_code Success = 0"
| "Result_code InvalidInput = -1"
| "Result_code CryptoError = -2"
| "Result_code MemoryError = -3"
| "Result_code ValidationError = -4"
| "Result_code AuthenticationError = -5"
| "Result_code InvalidPublicKey = -6"

text \<open>
  \<^verbatim>\<open>opaque_result_t\<close> of \<^verbatim>\<open>opaque_client_c.h\<close> (lines 28-36).
\<close>

datatype opaque_result_t =
  OPAQUE_SUCCESS | OPAQUE_INVALID_INPUT | OPAQUE_CRYPTO_ERROR | OPAQUE_MEMORY_ERROR
  | OPAQUE_VALIDATION_ERROR | OPAQUE_AUTHENTICATION_ERROR | OPAQUE_INVALID_PUBLIC_KEY

fun opaque_result_code :: "opaque_result_t \<Rightarrow> int" where
  "opaque_result_code OPAQUE_SUCCESS = 0"
| "opaque_result_code OPAQUE_INVALID_INPUT = -1"
| "opaque_result_code OPAQUE_CRYPTO_ERROR = -2"
| "opaque_result_code OPAQUE_MEMORY_ERROR = -3"
| "opaque_result_code OPAQUE_VALIDATION_ERROR = -4"
| "opaque_result_code OPAQUE_AUTHENTICATION_ERROR = -5"
| "opaque_result_code OPAQUE_INVALID_PUBLIC_KEY = -6"

text \<open>
  \<^verbatim>\<open>enum class Result\<close> of the xcframework's \<^verbatim>\<open>opaque.h\<close> (lines 21-29): the same
  enumerators, declared a second time; the suffix tells the two declarations apart.
\<close>

datatype Result_xc =
  Success_xc | InvalidInput_xc | CryptoError_xc | MemoryError_xc | ValidationError_xc
  | AuthenticationError_xc | InvalidPublicKey_xc

fun Result_xc_code :: "Result_xc \<Rightarrow> int" where
  "Result_xc_code Success_xc = 0"
| "Result_xc_code InvalidInput_xc = -1"
| "Result_xc_code CryptoError_xc = -2"
| "Result_xc_code MemoryError_xc = -3"
| "Result_xc_code ValidationError_xc = -4"
| "Result_xc_code AuthenticationError_xc = -5"
| "Result_xc_code InvalidPublicKey_xc = -6"

section \<open>The protocol core\<close>

text \<open>
  The headers under \<^verbatim>\<open>src/\<close> declare the protocol's constants, types and operations;
  the bodies of the operations are not among them. The types below are the declared
  ones, and the initiator's operations are the functions of \<^verbatim>\<open>opaque_client_c.h\<close>, the
  one header that declares them with the master key. What an operation computes is
  modelled from the specification's step list, over the primitives that \<^verbatim>\<open>opaque.h\<close>
  declares in namespaces \<^verbatim>\<open>crypto\<close>, \<^verbatim>\<open>oblivious_prf\<close> and \<^verbatim>\<open>envelope\<close>, which are
  taken as parameters: nothing is assumed of them but what a theorem states as a
  hypothesis.
\<close>

subsection \<open>Byte buffers and declared structures\<close>

text \<open>\<^verbatim>\<open>secure_bytes\<close> (\<^verbatim>\<open>std::vector<uint8_t, SecureAllocator<uint8_t>>\<close>).\<close>

type_synonym bytes = "8 word list"

text \<open>Overwriting a buffer with zeros keeps its size.\<close>

definition zeroize :: "bytes \<Rightarrow> bytes" where
  "zeroize b = replicate (length b) 0"

text \<open>The ASCII bytes of a domain-separation label.\<close>

definition label :: "string \<Rightarrow> bytes" where
  "label s = map of_char s"

text \<open>\<^verbatim>\<open>struct Envelope\<close> (\<^verbatim>\<open>opaque.h\<close>, lines 98-106).\<close>

record Envelope =
  nonce :: bytes
  ciphertext :: bytes
  auth_tag :: bytes

text \<open>
  Modelled from the spec: the envelope's wire form, whose code is not under \<^verbatim>\<open>src/\<close>
  (section 3): 176 bytes, the 32-byte nonce, the 96-byte ciphertext of initiator private
  key, responder public key and master key, and the 48-byte tag region, in this order.
\<close>

definition ENVELOPE_CIPHERTEXT_LENGTH :: nat where
  "ENVELOPE_CIPHERTEXT_LENGTH = PRIVATE_KEY_LENGTH + PUBLIC_KEY_LENGTH + MASTER_KEY_LENGTH"

definition ENVELOPE_TAG_LENGTH :: nat where
  "ENVELOPE_TAG_LENGTH = ENVELOPE_LENGTH - NONCE_LENGTH - ENVELOPE_CIPHERTEXT_LENGTH"

definition Envelope_bytes :: "Envelope \<Rightarrow> bytes" where
  "Envelope_bytes e = nonce e @ ciphertext e @ auth_tag e"


definition Envelope_sized :: "Envelope \<Rightarrow> bool" where
  "Envelope_sized e \<longleftrightarrow>
     length (nonce e) = NONCE_LENGTH \<and> length (ciphertext e) = ENVELOPE_CIPHERTEXT_LENGTH
     \<and> length (auth_tag e) = ENVELOPE_TAG_LENGTH"

subsection \<open>Primitives\<close>

text \<open>
  The functions of namespaces \<^verbatim>\<open>crypto\<close>, \<^verbatim>\<open>oblivious_prf\<close> and \<^verbatim>\<open>envelope\<close>
  (\<^verbatim>\<open>opaque.h\<close>, lines 133-180) that the initiator's operations call. A function
  returns its \<^verbatim>\<open>Result\<close> and what it wrote to its output buffers; a function that draws
  randomness also takes and returns the generator's state \<open>'r\<close>. The hash of the transcript
  and of the password is named by the specification only; the header declares its
  length, \<^verbatim>\<open>HASH_LENGTH\<close>.
\<close>

record 'r primitives =
  random_bytes :: "nat \<Rightarrow> 'r \<Rightarrow> (Result \<times> bytes) \<times> 'r"
  derive_key_pair :: "bytes \<Rightarrow> Result \<times> bytes \<times> bytes"
  scalar_mult :: "bytes \<Rightarrow> bytes \<Rightarrow> Result \<times> bytes"
  key_derivation_extract :: "bytes \<Rightarrow> bytes \<Rightarrow> Result \<times> bytes"
  key_derivation_expand :: "bytes \<Rightarrow> bytes \<Rightarrow> nat \<Rightarrow> Result \<times> bytes"
  hmac :: "bytes \<Rightarrow> bytes \<Rightarrow> Result \<times> bytes"
  oprf_blind :: "bytes \<Rightarrow> 'r \<Rightarrow> (Result \<times> bytes \<times> bytes) \<times> 'r"
  oprf_finalize :: "bytes \<Rightarrow> bytes \<Rightarrow> bytes \<Rightarrow> Result \<times> bytes"
  envelope_seal ::
    "bytes \<Rightarrow> bytes \<Rightarrow> bytes \<Rightarrow> bytes \<Rightarrow> bytes \<Rightarrow> 'r \<Rightarrow> (Result \<times> Envelope) \<times> 'r"
  envelope_open ::
    "Envelope \<Rightarrow> bytes \<Rightarrow> bytes \<Rightarrow> Result \<times> bytes \<times> bytes \<times> bytes \<times> bytes"
  hash :: "bytes \<Rightarrow> bytes"

text \<open>
  Sequencing. A step either yields a value or stops with a \<^verbatim>\<open>Result\<close> other than
  \<^verbatim>\<open>Success\<close>, and carries the generator's state along: the C++ idiom
  \<^verbatim>\<open>if (r != Result::Success) return r;\<close> after every call.
\<close>

type_synonym ('r, 'a) step = "'r \<Rightarrow> (Result + 'a) \<times> 'r"

definition ret :: "'a \<Rightarrow> ('r, 'a) step" where
  "ret x g = (Inr x, g)"


definition call :: "Result \<times> 'a \<Rightarrow> ('r, 'a) step" where
  "call p g = (if fst p = Success then Inr (snd p) else Inl (fst p), g)"

definition draw :: "('r \<Rightarrow> (Result \<times> 'a) \<times> 'r) \<Rightarrow> ('r, 'a) step" where
  "draw f g =
     (case f g of (p, g') \<Rightarrow> (if fst p = Success then Inr (snd p) else Inl (fst p), g'))"

definition seq :: "('r, 'a) step \<Rightarrow> ('a \<Rightarrow> ('r, 'b) step) \<Rightarrow> ('r, 'b) step" where
  "seq m f g = (case m g of (Inl e, g') \<Rightarrow> (Inl e, g') | (Inr x, g') \<Rightarrow> f x g')"

text \<open>
  A step is proper when it never stops with \<^verbatim>\<open>Success\<close> as its error: then the status
  of a role operation is \<^verbatim>\<open>Success\<close> only if every step yielded its value.
\<close>

definition proper :: "('r, 'a) step \<Rightarrow> bool" where
  "proper m \<longleftrightarrow> (\<forall>g g'. m g \<noteq> (Inl Success, g'))"

text \<open>
  Modelled from the spec: the generation of a fresh key pair, whose code is not under
  \<^verbatim>\<open>src/\<close> (section 4.1): random bytes for a seed, then \<open>derive_key_pair(seed[32])\<close>.
\<close>

definition fresh_key_pair :: "'r primitives \<Rightarrow> ('r, bytes \<times> bytes) step" where
  "fresh_key_pair P =
     seq (draw (random_bytes P PRIVATE_KEY_LENGTH)) (\<lambda>seed. call (derive_key_pair P seed))"

text \<open>
  Modelled from the spec: the password-derived key that both \<open>finalize_registration\<close>
  (steps 2 and 3) and \<open>generate_ke3\<close> (steps 3 and 4) compute, in bodies that are not
  under \<^verbatim>\<open>src/\<close>: \<open>oprf_output = OPRF.finalize(password, r, evaluated)\<close>, then
  \<open>randomized_pwd = HKDF-Extract("", oprf_output || password_hash)\<close>.
\<close>

definition randomized_password ::
  "'r primitives \<Rightarrow> bytes \<Rightarrow> bytes \<Rightarrow> bytes \<Rightarrow> ('r, bytes) step" where
  "randomized_password P pw r evaluated =
     seq (call (oprf_finalize P pw r evaluated)) (\<lambda>oprf_output.
       call (key_derivation_extract P [] (oprf_output @ hash P pw)))"



subsection \<open>Initiator role\<close>

text \<open>
  Modelled from the spec: the phases of the initiator's state machine (section 4.4), of
  which the headers declare nothing. \<open>NEW\<close> is the fresh state of the diagram, before any
  operation.
\<close>

datatype phase =
  NEW | AWAIT_REG_RESP | AWAIT_KE2 | AWAIT_FINISH | DONE_REG | DONE_AUTH | FAILED

text \<open>
  Modelled from the spec: the initiator's session state behind
  \<^verbatim>\<open>opaque_client_state_handle_t\<close>, an opaque pointer in the header (section 3): the
  password copy, the OPRF blind scalar, the ephemeral key pair, the initiator nonce, the
  KE1 message sent (the transcript needs it) and, after KE2 processing, the recovered
  long-term key pair, the responder's public key, the session key and the master key.
\<close>

record InitiatorState =
  phase :: phase
  password :: bytes
  oprf_blind_scalar :: bytes
  initiator_ephemeral_private_key :: bytes
  initiator_ephemeral_public_key :: bytes
  initiator_nonce :: bytes
  ke1_sent :: bytes
  recovered_private_key :: bytes
  recovered_public_key :: bytes
  recovered_responder_public_key :: bytes
  stored_session_key :: bytes
  stored_master_key :: bytes

text \<open>
  Modelled from the spec: what \<^verbatim>\<open>opaque_client_state_create\<close> yields, a fresh state
  with empty buffers.
\<close>

definition opaque_client_state_create :: InitiatorState where
  "opaque_client_state_create =
     \<lparr>phase = NEW, password = [], oprf_blind_scalar = [],
      initiator_ephemeral_private_key = [], initiator_ephemeral_public_key = [],
      initiator_nonce = [], ke1_sent = [], recovered_private_key = [],
      recovered_public_key = [], recovered_responder_public_key = [],
      stored_session_key = [], stored_master_key = []\<rparr>"



definition wipe :: "phase \<Rightarrow> InitiatorState \<Rightarrow> InitiatorState" where
  "wipe p st =
     \<lparr>phase = p, password = zeroize (password st),
      oprf_blind_scalar = zeroize (oprf_blind_scalar st),
      initiator_ephemeral_private_key = zeroize (initiator_ephemeral_private_key st),
      initiator_ephemeral_public_key = zeroize (initiator_ephemeral_public_key st),
      initiator_nonce = zeroize (initiator_nonce st),
      ke1_sent = zeroize (ke1_sent st),
      recovered_private_key = zeroize (recovered_private_key st),
      recovered_public_key = zeroize (recovered_public_key st),
      recovered_responder_public_key = zeroize (recovered_responder_public_key st),
      stored_session_key = zeroize (stored_session_key st),
      stored_master_key = zeroize (stored_master_key st)\<rparr>"

subsubsection \<open>The functions of the C interface\<close>

text \<open>
  The functions of \<^verbatim>\<open>opaque_client_c.h\<close>. An input buffer is the list of its bytes and
  its length argument is the length of the list; an output buffer is its capacity, and
  the function returns what it writes. The client handle stands for the responder public
  key the client was created with and is an argument where the steps use it; handles are
  valid. A call that breaks the argument contract, or comes out of order, is
  \<^verbatim>\<open>InvalidInput\<close> before any other work and without side effects; an error of a later
  step leaves the state \<open>FAILED\<close> and wiped.

  The argument contract: an output buffer holds at least what is written to it (the doc
  comments' "must be >= N"; \<^verbatim>\<open>ThirdParty/opaque_client.h\<close>, line 85: the out buffers
  may be larger than needed); a master key is 32 bytes ("must be 32"); a wire message has
  exactly its declared length (specification, section 3, invariant 4). For the lengths of
  the two wire messages the doc comments of \<^verbatim>\<open>opaque_client_c.h\<close> say "must be >= 96"
  and "must be >= 336" as they do for output buffers; no theorem below depends on what
  happens to a message longer than declared.
\<close>

text \<open>
  Modelled from the spec: the body of \<^verbatim>\<open>opaque_client_create_registration_request\<close>
  (section 4.4, \<open>create_registration_request\<close>): \<open>OPRF.blind(password)\<close> gives
  \<open>(blinded, r)\<close>; the state keeps a copy of the password and \<open>r\<close>; the request is
  \<open>blinded\<close>. Contract (lines 82-98): \<open>request_length\<close> must be >= 32.
\<close>

definition opaque_client_create_registration_request ::
  "'r primitives \<Rightarrow> bytes \<Rightarrow> InitiatorState \<Rightarrow> nat \<Rightarrow> 'r
     \<Rightarrow> (Result \<times> bytes) \<times> InitiatorState \<times> 'r" where
  "opaque_client_create_registration_request P secure_key st request_length g =
     (if request_length < OPAQUE_REGISTRATION_REQUEST_LENGTH \<or> phase st \<noteq> NEW
      then ((InvalidInput, []), st, g)
      else case draw (oprf_blind P secure_key) g of
        (Inl e, g') \<Rightarrow> ((e, []), wipe FAILED st, g')
      | (Inr (blinded, r), g') \<Rightarrow>
          ((Success, blinded),
           st\<lparr>phase := AWAIT_REG_RESP, password := secure_key, oprf_blind_scalar := r\<rparr>,
           g'))"

text \<open>
  Modelled from the spec: what \<open>finalize_registration\<close> computes (section 4.4, steps 1 to
  6), in a body that is not under \<^verbatim>\<open>src/\<close>: parse the response as
  \<open>evaluated || responder_pk || _nonce\<close>; derive the randomized password; generate a fresh
  initiator key pair \<open>(isk, ipk)\<close>; seal the envelope; emit \<open>responder_pk || env\<close> as the
  record. No serialising code of the record is under \<^verbatim>\<open>src/\<close>; the doc comment of
  \<^verbatim>\<open>record_out\<close> (\<^verbatim>\<open>opaque_client_c.h\<close>, line 108) reads "208 bytes: envelope + public
  key".
\<close>

definition registration_record ::
  "'r primitives \<Rightarrow> bytes \<Rightarrow> bytes \<Rightarrow> bytes \<Rightarrow> bytes \<Rightarrow> ('r, bytes) step" where
  "registration_record P pw r response mk =
     (let evaluated = take PUBLIC_KEY_LENGTH response;
          responder_pk = take PUBLIC_KEY_LENGTH (drop PUBLIC_KEY_LENGTH response)
      in seq (randomized_password P pw r evaluated) (\<lambda>randomized_pwd.
         seq (fresh_key_pair P) (\<lambda>(isk, ipk).
         seq (draw (envelope_seal P randomized_pwd responder_pk isk ipk mk)) (\<lambda>env.
         ret (responder_pk @ Envelope_bytes env)))))"

text \<open>
  The documented size of \<^verbatim>\<open>record_out\<close> (\<^verbatim>\<open>opaque_client_c.h\<close>, lines 108-109): 208
  bytes, the size of a public key and an envelope.
\<close>

definition registration_record_length :: nat where
  "registration_record_length = OPAQUE_PUBLIC_KEY_LENGTH + OPAQUE_ENVELOPE_LENGTH"

text \<open>
  Modelled from the spec: the state transition of
  \<^verbatim>\<open>opaque_client_finalize_registration\<close>: success emits the record and leaves
  the state \<open>DONE_REG\<close> and wiped (step 7). Contract (lines 100-121): the response is 96
  bytes, \<open>master_key_length\<close> must be 32, \<open>record_length\<close> must be >= 208.
\<close>

definition opaque_client_finalize_registration ::
  "'r primitives \<Rightarrow> bytes \<Rightarrow> bytes \<Rightarrow> InitiatorState \<Rightarrow> nat \<Rightarrow> 'r
     \<Rightarrow> (Result \<times> bytes) \<times> InitiatorState \<times> 'r" where
  "opaque_client_finalize_registration P response master_key st record_length g =
     (if length response \<noteq> OPAQUE_REGISTRATION_RESPONSE_LENGTH
         \<or> length master_key \<noteq> OPAQUE_MASTER_KEY_LENGTH
         \<or> record_length < registration_record_length
         \<or> phase st \<noteq> AWAIT_REG_RESP
      then ((InvalidInput, []), st, g)
      else case registration_record P (password st) (oprf_blind_scalar st) response
                  master_key g of
        (Inl e, g') \<Rightarrow> ((e, []), wipe FAILED st, g')
      | (Inr r, g') \<Rightarrow> ((Success, r), wipe DONE_REG st, g'))"







subsection \<open>Sizes of what the primitives write\<close>

text \<open>
  A C++ caller hands each primitive an output buffer of the declared size. Here a
  primitive returns its output, so that the output has the declared size is said of the
  primitive: these are the hypotheses under which the sizes of the role operations'
  results are proved.
\<close>

definition seal_sized :: "'r primitives \<Rightarrow> bool" where
  "seal_sized P \<longleftrightarrow>
     (\<forall>rpwd rpk isk ipk mk g env g'.
        envelope_seal P rpwd rpk isk ipk mk g = ((Success, env), g') \<longrightarrow> Envelope_sized env)"



subsection \<open>An instance of the primitives, and one run\<close>

text \<open>
  A deterministic, size-correct instance of the primitives for running the operations on
  concrete inputs. It is not cryptography: the generator's state counts the draws and the
  \<open>n\<close>-th draw is filled with the byte \<open>n\<close>; a public key is its private key with every
  byte incremented; sealing stores the plaintext as it is under a fixed tag, and opening
  checks the tag and the responder key.
\<close>

definition fit :: "nat \<Rightarrow> bytes \<Rightarrow> bytes" where
  "fit n b = take n (b @ replicate n 0)"

definition demo_tag :: bytes where
  "demo_tag = replicate 48 0x7A"

definition demo_public :: "bytes \<Rightarrow> bytes" where
  "demo_public sk = map (\<lambda>b. b + 1) sk"

definition demo_open ::
  "Envelope \<Rightarrow> bytes \<Rightarrow> bytes \<Rightarrow> Result \<times> bytes \<times> bytes \<times> bytes \<times> bytes" where
  "demo_open env rpwd known =
     (let pt = fit 96 (ciphertext env);
          isk = take 32 pt; rpk = take 32 (drop 32 pt); mk = drop 64 pt
      in if auth_tag env \<noteq> demo_tag \<or> rpk \<noteq> known
         then (AuthenticationError, [], [], [], [])
         else (Success, rpk, isk, demo_public isk, mk))"

definition demo :: "nat primitives" where
  "demo =
     \<lparr>random_bytes = (\<lambda>n g. ((Success, replicate n (of_nat g)), Suc g)),
      derive_key_pair = (\<lambda>seed. (Success, fit 32 seed, demo_public (fit 32 seed))),
      scalar_mult = (\<lambda>s p. (Success, fit 32 p)),
      key_derivation_extract = (\<lambda>salt ikm. (Success, replicate 64 0xE0)),
      key_derivation_expand = (\<lambda>prk info n. (Success, replicate n 0xE1)),
      hmac = (\<lambda>k d. (Success, replicate 64 0xAC)),
      oprf_blind = (\<lambda>input g. ((Success, replicate 32 0xB1, replicate 32 (of_nat g)), Suc g)),
      oprf_finalize = (\<lambda>input r e. (Success, replicate 64 0xF1)),
      envelope_seal = (\<lambda>rpwd rpk isk ipk mk g.
        ((Success, \<lparr>nonce = replicate 32 (of_nat g), ciphertext = fit 96 (isk @ rpk @ mk),
                    auth_tag = demo_tag\<rparr>), Suc g)),
      envelope_open = demo_open,
      hash = (\<lambda>x. replicate 64 0x48)\<rparr>"

text \<open>
  The inputs of the run: the password and the master key of the specification's
  scenario A, the responder's public key, the initiator's registration request and the
  responder's registration response (evaluated element, responder public key, masking
  key).
\<close>

definition demo_password :: bytes where
  "demo_password = label ''correct horse''"

definition demo_master_key :: bytes where
  "demo_master_key = replicate 31 0 @ [0xAA]"

definition demo_responder_pk :: bytes where
  "demo_responder_pk = replicate 32 0x52"

definition demo_request :: bytes where
  "demo_request = replicate 32 0xB1"

definition demo_response :: bytes where
  "demo_response = replicate 32 0xC4 @ demo_responder_pk @ replicate 32 0x33"

text \<open>
  Registration. \<^verbatim>\<open>opaque_client_create_registration_request\<close> makes draw 0 (the blind
  scalar) and leaves the first state below; \<^verbatim>\<open>opaque_client_finalize_registration\<close>
  makes draw 1, the seed of the initiator's key pair (private key of bytes 1, public key
  of bytes 2), and draw 2, the envelope's nonce.
\<close>

definition demo_state_registering :: InitiatorState where
  "demo_state_registering =
     opaque_client_state_create\<lparr>phase := AWAIT_REG_RESP, password := demo_password,
        oprf_blind_scalar := replicate 32 0\<rparr>"

definition demo_envelope :: Envelope where
  "demo_envelope =
     \<lparr>nonce = replicate 32 2,
      ciphertext = replicate 32 1 @ demo_responder_pk @ demo_master_key,
      auth_tag = demo_tag\<rparr>"

definition demo_record :: bytes where
  "demo_record = demo_responder_pk @ Envelope_bytes demo_envelope"






section \<open>Facts about the declared sizes and codes\<close>

lemmas opaque_h_sizes =
  OPRF_SEED_LENGTH_def PRIVATE_KEY_LENGTH_def PUBLIC_KEY_LENGTH_def MASTER_KEY_LENGTH_def
  NONCE_LENGTH_def MAC_LENGTH_def HASH_LENGTH_def ENVELOPE_LENGTH_def
  REGISTRATION_REQUEST_LENGTH_def REGISTRATION_RESPONSE_LENGTH_def
  CREDENTIAL_REQUEST_LENGTH_def CREDENTIAL_RESPONSE_LENGTH_def KE1_LENGTH_def
  KE2_LENGTH_def KE3_LENGTH_def

lemmas opaque_client_c_h_sizes =
  OPAQUE_PRIVATE_KEY_LENGTH_def OPAQUE_PUBLIC_KEY_LENGTH_def OPAQUE_MASTER_KEY_LENGTH_def
  OPAQUE_NONCE_LENGTH_def OPAQUE_MAC_LENGTH_def OPAQUE_HASH_LENGTH_def
  OPAQUE_ENVELOPE_LENGTH_def OPAQUE_REGISTRATION_REQUEST_LENGTH_def
  OPAQUE_REGISTRATION_RESPONSE_LENGTH_def OPAQUE_CREDENTIAL_REQUEST_LENGTH_def
  OPAQUE_CREDENTIAL_RESPONSE_LENGTH_def OPAQUE_KE1_LENGTH_def OPAQUE_KE2_LENGTH_def
  OPAQUE_KE3_LENGTH_def

lemma static_asserts_hold:
  "static_assert_key_lengths_match" "static_assert_private_key_32"
  "static_assert_nonce_secretbox" "static_assert_mac_64"
  "static_assert_credential_response" "static_assert_ke2"
  by (simp_all add: static_assert_key_lengths_match_def static_assert_private_key_32_def
      static_assert_nonce_secretbox_def static_assert_mac_64_def
      static_assert_credential_response_def static_assert_ke2_def
      crypto_secretbox_NONCEBYTES_def opaque_h_sizes)

lemma c_macros_agree:
  "OPAQUE_PRIVATE_KEY_LENGTH = PRIVATE_KEY_LENGTH" "OPAQUE_PUBLIC_KEY_LENGTH = PUBLIC_KEY_LENGTH"
  "OPAQUE_MASTER_KEY_LENGTH = MASTER_KEY_LENGTH" "OPAQUE_NONCE_LENGTH = NONCE_LENGTH"
  "OPAQUE_MAC_LENGTH = MAC_LENGTH" "OPAQUE_HASH_LENGTH = HASH_LENGTH"
  "OPAQUE_ENVELOPE_LENGTH = ENVELOPE_LENGTH"
  "OPAQUE_REGISTRATION_REQUEST_LENGTH = REGISTRATION_REQUEST_LENGTH"
  "OPAQUE_REGISTRATION_RESPONSE_LENGTH = REGISTRATION_RESPONSE_LENGTH"
  "OPAQUE_CREDENTIAL_REQUEST_LENGTH = CREDENTIAL_REQUEST_LENGTH"
  "OPAQUE_CREDENTIAL_RESPONSE_LENGTH = CREDENTIAL_RESPONSE_LENGTH"
  "OPAQUE_KE1_LENGTH = KE1_LENGTH" "OPAQUE_KE2_LENGTH = KE2_LENGTH"
  "OPAQUE_KE3_LENGTH = KE3_LENGTH"
  by (simp_all add: opaque_h_sizes opaque_client_c_h_sizes)

lemma Result_UNIV:
  "(UNIV :: Result set) =
     {Success, InvalidInput, CryptoError, MemoryError, ValidationError,
      AuthenticationError, InvalidPublicKey}"
proof -
  have "r \<in> {Success, InvalidInput, CryptoError, MemoryError, ValidationError,
      AuthenticationError, InvalidPublicKey}" for r
    by (cases r) simp_all
  then show ?thesis by blast
qed

lemma opaque_result_t_UNIV:
  "(UNIV :: opaque_result_t set) =
     {OPAQUE_SUCCESS, OPAQUE_INVALID_INPUT, OPAQUE_CRYPTO_ERROR, OPAQUE_MEMORY_ERROR,
      OPAQUE_VALIDATION_ERROR, OPAQUE_AUTHENTICATION_ERROR, OPAQUE_INVALID_PUBLIC_KEY}"
proof -
  have "r \<in> {OPAQUE_SUCCESS, OPAQUE_INVALID_INPUT, OPAQUE_CRYPTO_ERROR, OPAQUE_MEMORY_ERROR,
      OPAQUE_VALIDATION_ERROR, OPAQUE_AUTHENTICATION_ERROR, OPAQUE_INVALID_PUBLIC_KEY}" for r
    by (cases r) simp_all
  then show ?thesis by blast
qed

lemma Result_xc_UNIV:
  "(UNIV :: Result_xc set) =
     {Success_xc, InvalidInput_xc, CryptoError_xc, MemoryError_xc, ValidationError_xc,
      AuthenticationError_xc, InvalidPublicKey_xc}"
proof -
  have "r \<in> {Success_xc, InvalidInput_xc, CryptoError_xc, MemoryError_xc,
      ValidationError_xc, AuthenticationError_xc, InvalidPublicKey_xc}" for r
    by (cases r) simp_all
  then show ?thesis by blast
qed

lemma Result_code_range: "range Result_code = {0, -1, -2, -3, -4, -5, -6}"
  unfolding Result_UNIV by simp

lemma opaque_result_code_range: "range opaque_result_code = {0, -1, -2, -3, -4, -5, -6}"
  unfolding opaque_result_t_UNIV by simp

lemma Result_xc_code_range: "range Result_xc_code = {0, -1, -2, -3, -4, -5, -6}"
  unfolding Result_xc_UNIV by simp

lemma Result_code_inj: "inj Result_code"
proof (rule injI)
  fix a b assume "Result_code a = Result_code b"
  then show "a = b" by (cases a; cases b) simp_all
qed

text \<open>
  C3. The wire sizes compose exactly. A KE2 message is 336 bytes: the responder nonce
  (32) at offset 0, the responder's ephemeral public key (32) at offset 32, the
  credential response (208) at offset 64 and the responder MAC (64) at offset 272. A
  credential response is 208 bytes: a 32-byte public key at offset 0 and the 176-byte
  envelope at offset 32. Hence \<open>KE2_LENGTH = NONCE_LENGTH + PUBLIC_KEY_LENGTH +
  CREDENTIAL_RESPONSE_LENGTH + MAC_LENGTH\<close> and \<open>CREDENTIAL_RESPONSE_LENGTH =
  PUBLIC_KEY_LENGTH + ENVELOPE_LENGTH\<close>, the two \<^verbatim>\<open>static_assert\<close>s of the header.
\<close>

theorem wire_sizes_compose:
  "KE2_LENGTH = 336
   \<and> ke2_layout = [32, 32, 208, 64]
   \<and> zip KE2_fields ke2_layout =
       [(''responder_nonce'', 32), (''responder_public_key'', 32),
        (''credential_response'', 208), (''responder_mac'', 64)]
   \<and> layout_offsets 0 ke2_layout = [0, 32, 64, 272, KE2_LENGTH]
   \<and> sum_list ke2_layout = KE2_LENGTH
   \<and> CREDENTIAL_RESPONSE_LENGTH = 208
   \<and> credential_response_layout = [32, 176]
   \<and> layout_offsets 0 credential_response_layout = [0, 32, CREDENTIAL_RESPONSE_LENGTH]
   \<and> sum_list credential_response_layout = CREDENTIAL_RESPONSE_LENGTH
   \<and> KE2_LENGTH = NONCE_LENGTH + PUBLIC_KEY_LENGTH + CREDENTIAL_RESPONSE_LENGTH + MAC_LENGTH
   \<and> CREDENTIAL_RESPONSE_LENGTH = PUBLIC_KEY_LENGTH + ENVELOPE_LENGTH
   \<and> static_assert_ke2 \<and> static_assert_credential_response"
  by (simp add: ke2_layout_def KE2_fields_def credential_response_layout_def
      static_assert_ke2_def static_assert_credential_response_def opaque_h_sizes)

text \<open>
  C6. The error taxonomy is fixed and the same in every interface: the C++ \<open>Result\<close>
  (in both headers that declare it) and the C \<open>opaque_result_t\<close> give Success 0,
  InvalidInput -1, CryptoError -2, MemoryError -3, ValidationError -4,
  AuthenticationError -5 and InvalidPublicKey -6; distinct results have distinct codes;
  and the integer status of an operation, being the code of a \<open>Result\<close>, is drawn from
  exactly the set of these seven integers.
\<close>

theorem error_taxonomy_fixed:
  "Result_code Success = 0 \<and> opaque_result_code OPAQUE_SUCCESS = 0
     \<and> Result_xc_code Success_xc = 0
   \<and> Result_code InvalidInput = -1 \<and> opaque_result_code OPAQUE_INVALID_INPUT = -1
     \<and> Result_xc_code InvalidInput_xc = -1
   \<and> Result_code CryptoError = -2 \<and> opaque_result_code OPAQUE_CRYPTO_ERROR = -2
     \<and> Result_xc_code CryptoError_xc = -2
   \<and> Result_code MemoryError = -3 \<and> opaque_result_code OPAQUE_MEMORY_ERROR = -3
     \<and> Result_xc_code MemoryError_xc = -3
   \<and> Result_code ValidationError = -4 \<and> opaque_result_code OPAQUE_VALIDATION_ERROR = -4
     \<and> Result_xc_code ValidationError_xc = -4
   \<and> Result_code AuthenticationError = -5
     \<and> opaque_result_code OPAQUE_AUTHENTICATION_ERROR = -5
     \<and> Result_xc_code AuthenticationError_xc = -5
   \<and> Result_code InvalidPublicKey = -6 \<and> opaque_result_code OPAQUE_INVALID_PUBLIC_KEY = -6
     \<and> Result_xc_code InvalidPublicKey_xc = -6
   \<and> inj Result_code
   \<and> range Result_code = {0, -1, -2, -3, -4, -5, -6}
   \<and> range opaque_result_code = range Result_code
   \<and> range Result_xc_code = range Result_code"
  by (simp add: Result_code_range opaque_result_code_range Result_xc_code_range
      Result_code_inj)

text \<open>
  C7. The envelope size is one constant per header, 176 bytes in the canonical layout,
  and the sizes a header derives from it (credential response, KE2) fit exactly one of
  the two layouts: the package's C++ and C headers follow the 176-byte layout and not the
  144-byte one, the xcframework's header follows the 144-byte layout and not the
  176-byte one, and no header whatsoever can follow both.
\<close>

theorem envelope_length_one_layout:
  "ENVELOPE_LENGTH = canonical_envelope \<and> canonical_envelope = 176
   \<and> follows_layout canonical_envelope packages_opaque_h
   \<and> \<not> follows_layout legacy_envelope packages_opaque_h
   \<and> follows_layout canonical_envelope packages_opaque_client_c_h
   \<and> \<not> follows_layout legacy_envelope packages_opaque_client_c_h
   \<and> follows_layout legacy_envelope xcframework_opaque_h
   \<and> \<not> follows_layout canonical_envelope xcframework_opaque_h
   \<and> \<not> (follows_layout legacy_envelope h \<and> follows_layout canonical_envelope h)"
  by (simp add: follows_layout_def canonical_envelope_def legacy_envelope_def
      packages_opaque_h_def packages_opaque_client_c_h_def xcframework_opaque_h_def
      opaque_h_sizes opaque_client_c_h_sizes)

text \<open>
  C9. The protocol's nonce (32 bytes) is at least as long as the 24-byte nonce of the
  secret-box cipher: the \<^verbatim>\<open>static_assert\<close> \<open>NONCE_LENGTH >= 24\<close> holds for the
  constants of the canonical header, with 8 bytes to spare, so a nonce buffer of
  \<open>NONCE_LENGTH\<close> bytes is never too short for the cipher.
\<close>

theorem nonce_length_covers_secretbox:
  "static_assert_nonce_secretbox
   \<and> NONCE_LENGTH = 32
   \<and> crypto_secretbox_NONCEBYTES \<le> NONCE_LENGTH
   \<and> NONCE_LENGTH - crypto_secretbox_NONCEBYTES = 8"
  by (simp add: static_assert_nonce_secretbox_def NONCE_LENGTH_def
      crypto_secretbox_NONCEBYTES_def)

section \<open>Facts about the protocol core\<close>

subsection \<open>Steps\<close>

lemma seq_Inr:
  "seq m f g = (Inr y, g') \<longleftrightarrow> (\<exists>x g1. m g = (Inr x, g1) \<and> f x g1 = (Inr y, g'))"
  by (auto simp: seq_def split: prod.splits sum.splits)

lemma call_Inr: "call p g = (Inr x, g') \<longleftrightarrow> p = (Success, x) \<and> g' = g"
  by (cases p) (auto simp: call_def)

lemma draw_Inr: "draw f g = (Inr x, g') \<longleftrightarrow> f g = ((Success, x), g')"
  by (auto simp: draw_def split: prod.splits)

lemma ret_Inr: "ret x g = (Inr y, g') \<longleftrightarrow> y = x \<and> g' = g"
  by (auto simp: ret_def)


lemma seq_call_Success: "seq (call (Success, x)) f = f x"
  by (simp add: fun_eq_iff seq_def call_def)

lemma seq_ret: "seq (ret x) f = f x"
  by (simp add: fun_eq_iff seq_def ret_def)

lemma seq_draw:
  "seq (draw f) k g =
     (case f g of ((r, x), g') \<Rightarrow> if r = Success then k x g' else (Inl r, g'))"
  by (simp add: seq_def draw_def split: prod.splits)

lemma seq_assoc: "seq (seq m f) k = seq m (\<lambda>x. seq (f x) k)"
  by (auto simp: fun_eq_iff seq_def split: prod.splits sum.splits)

lemmas run_steps = Let_def seq_assoc seq_call_Success seq_ret seq_draw ret_Inr

lemma proper_call: "proper (call p)"
  by (simp add: proper_def call_def)

lemma proper_draw: "proper (draw f)"
  by (auto simp: proper_def draw_def split: prod.splits)

lemma proper_ret: "proper (ret x)"
  by (simp add: proper_def ret_def)


lemma proper_seq: "proper m \<Longrightarrow> (\<And>x. proper (f x)) \<Longrightarrow> proper (seq m f)"
  by (auto simp: proper_def seq_def split: prod.splits sum.splits)

lemma proper_fresh_key_pair: "proper (fresh_key_pair P)"
  unfolding fresh_key_pair_def by (intro proper_seq proper_call proper_draw)

lemma proper_randomized_password: "proper (randomized_password P pw r ev)"
  unfolding randomized_password_def by (intro proper_seq proper_call)


lemma proper_registration_record: "proper (registration_record P pw r resp mk)"
  unfolding registration_record_def Let_def
  by (intro proper_seq proper_randomized_password proper_fresh_key_pair)
     (auto intro!: proper_seq proper_draw proper_ret split: prod.splits)


subsection \<open>What a successful operation did\<close>

lemma finalize_registration_Success:
  assumes "opaque_client_finalize_registration P response mk st n g = ((Success, out), st', g')"
  shows "\<exists>r. registration_record P (password st) (oprf_blind_scalar st) response mk g
               = (Inr r, g')
           \<and> out = r \<and> st' = wipe DONE_REG st"
proof -
  let ?run = "registration_record P (password st) (oprf_blind_scalar st) response mk"
  have ok: "\<not> (length response \<noteq> OPAQUE_REGISTRATION_RESPONSE_LENGTH
         \<or> length mk \<noteq> OPAQUE_MASTER_KEY_LENGTH
         \<or> n < registration_record_length
         \<or> phase st \<noteq> AWAIT_REG_RESP)"
    using assms by (auto simp: opaque_client_finalize_registration_def split: if_splits)
  obtain res g1 where run: "?run g = (res, g1)"
    by (cases "?run g")
  show ?thesis
  proof (cases res)
    case (Inl e)
    with run ok assms have "e = Success"
      by (simp add: opaque_client_finalize_registration_def)
    with Inl run show ?thesis
      using proper_registration_record [of P "password st" "oprf_blind_scalar st"
          response mk]
      by (simp add: proper_def)
  next
    case (Inr r)
    with run ok assms show ?thesis
      by (simp add: opaque_client_finalize_registration_def)
  qed
qed





subsection \<open>The instance and its run\<close>

lemma length_fit: "length (fit n b) = n"
  by (simp add: fit_def)

lemma demo_seal_sized: "seal_sized demo"
  by (auto simp: seal_sized_def demo_def Envelope_sized_def length_fit demo_tag_def
      ENVELOPE_TAG_LENGTH_def ENVELOPE_CIPHERTEXT_LENGTH_def opaque_h_sizes)



lemma demo_simps:
  "random_bytes demo n g = ((Success, replicate n (of_nat g)), Suc g)"
  "derive_key_pair demo seed = (Success, fit 32 seed, demo_public (fit 32 seed))"
  "scalar_mult demo s p = (Success, fit 32 p)"
  "key_derivation_extract demo salt ikm = (Success, replicate 64 0xE0)"
  "key_derivation_expand demo prk info n = (Success, replicate n 0xE1)"
  "hmac demo k d = (Success, replicate 64 0xAC)"
  "oprf_blind demo input g = ((Success, replicate 32 0xB1, replicate 32 (of_nat g)), Suc g)"
  "oprf_finalize demo input r e = (Success, replicate 64 0xF1)"
  "envelope_seal demo rpwd rpk isk ipk mk g =
     ((Success, \<lparr>nonce = replicate 32 (of_nat g), ciphertext = fit 96 (isk @ rpk @ mk),
                 auth_tag = demo_tag\<rparr>), Suc g)"
  "envelope_open demo = demo_open"
  "hash demo x = replicate 64 0x48"
  by (simp_all add: demo_def)

lemmas demo_common =
  demo_password_def demo_master_key_def demo_responder_pk_def demo_envelope_def
  opaque_client_state_create_def

lemmas demo_registration =
  demo_common demo_request_def demo_response_def demo_state_registering_def demo_record_def


lemma demo_registration_lengths:
  "length demo_response = 96" "length demo_master_key = 32" "length demo_record = 208"
  by (simp_all add: demo_registration Envelope_bytes_def demo_tag_def)


lemma demo_create_registration_request:
  "opaque_client_create_registration_request demo demo_password opaque_client_state_create
     32 0 = ((Success, demo_request), demo_state_registering, 1)"
  by (simp add: opaque_client_create_registration_request_def draw_def demo_simps
      demo_registration opaque_client_c_h_sizes)

lemma demo_registration_record:
  "registration_record demo demo_password (replicate 32 0) demo_response demo_master_key 1
     = (Inr demo_record, 3)"
  by (simp add: registration_record_def randomized_password_def fresh_key_pair_def
      run_steps demo_simps demo_registration fit_def demo_public_def
      Envelope_bytes_def opaque_h_sizes numeral_3_eq_3)

lemma demo_finalize_registration:
  "opaque_client_finalize_registration demo demo_response demo_master_key
     demo_state_registering 208 1
     = ((Success, demo_record), wipe DONE_REG demo_state_registering, 3)"
proof -
  have "phase demo_state_registering = AWAIT_REG_RESP"
    "password demo_state_registering = demo_password"
    "oprf_blind_scalar demo_state_registering = replicate 32 0"
    by (simp_all add: demo_registration)
  then show ?thesis
    using demo_registration_record
    by (simp add: opaque_client_finalize_registration_def demo_registration_lengths
        registration_record_length_def opaque_client_c_h_sizes)
qed

lemma demo_seal:
  "envelope_seal demo (replicate 64 0xE0) demo_responder_pk (replicate 32 1)
     (replicate 32 2) demo_master_key 2 = ((Success, demo_envelope), 3)"
  by (simp add: demo_simps demo_registration fit_def numeral_3_eq_3)





section \<open>The initiator's finish and the registration record\<close>



text \<open>
  C4. For every successful \<open>finalize_registration\<close>, given a 96-byte registration
  response and a 32-byte master key, the emitted registration record is 208 bytes: the
  responder public key (32 bytes, the one the response carries) followed by the sealed
  envelope (176 bytes), in that order. The envelope is the one sealed for that responder
  public key, the fresh initiator key pair and the master key. The envelope's size holds
  for a sealing primitive that writes outputs of the declared sizes.
\<close>

theorem finalize_registration_record:
  assumes sl: "seal_sized P"
    and resp: "length response = 96" and mkl: "length master_key = 32"
    and run: "opaque_client_finalize_registration P response master_key st record_length g
                = ((Success, out), st', g')"
  shows "length out = 208
    \<and> (\<exists>responder_pk env rpwd seed isk ipk ga gb.
          responder_pk = take 32 (drop 32 response)
          \<and> derive_key_pair P seed = (Success, isk, ipk)
          \<and> envelope_seal P rpwd responder_pk isk ipk master_key ga = ((Success, env), gb)
          \<and> length responder_pk = 32 \<and> length (Envelope_bytes env) = 176
          \<and> out = responder_pk @ Envelope_bytes env
          \<and> take 32 out = responder_pk \<and> drop 32 out = Envelope_bytes env)"
proof -
  from finalize_registration_Success [OF run] have
    rr: "registration_record P (password st) (oprf_blind_scalar st) response master_key g
           = (Inr out, g')"
    by blast
  define responder_pk where "responder_pk = take 32 (drop 32 response)"
  from rr obtain rpwd seed gb isk ipk env where
    dk: "derive_key_pair P seed = (Success, isk, ipk)"
    and se: "envelope_seal P rpwd responder_pk isk ipk master_key gb = ((Success, env), g')"
    and o: "out = responder_pk @ Envelope_bytes env"
    unfolding registration_record_def fresh_key_pair_def Let_def responder_pk_def
      PUBLIC_KEY_LENGTH_def
    by (auto simp: seq_Inr call_Inr draw_Inr ret_Inr split: prod.splits)
  have rpk: "length responder_pk = 32"
    using resp by (simp add: responder_pk_def)
  from sl se have "Envelope_sized env"
    unfolding seal_sized_def by blast
  then have env: "length (Envelope_bytes env) = 176"
    by (simp add: Envelope_sized_def Envelope_bytes_def ENVELOPE_TAG_LENGTH_def
        ENVELOPE_CIPHERTEXT_LENGTH_def opaque_h_sizes)
  have "length out = 208" using o env rpk by simp
  moreover have "take 32 out = responder_pk \<and> drop 32 out = Envelope_bytes env"
    using o rpk by simp
  ultimately show ?thesis
    using dk se rpk env o unfolding responder_pk_def by blast
qed

text \<open>
  The run of the instance: \<open>create_registration_request\<close> on a fresh state, then
  \<open>finalize_registration\<close> on the responder's response; the record is the responder's
  public key of the response followed by the envelope sealed in the run.
\<close>

theorem finalize_registration_record_witness:
  "seal_sized demo
   \<and> length demo_response = 96 \<and> length demo_master_key = 32
   \<and> opaque_client_create_registration_request demo demo_password
        opaque_client_state_create 32 0
       = ((Success, demo_request), demo_state_registering, 1)
   \<and> opaque_client_finalize_registration demo demo_response demo_master_key
        demo_state_registering 208 1
       = ((Success, demo_record), wipe DONE_REG demo_state_registering, 3)
   \<and> envelope_seal demo (replicate 64 0xE0) demo_responder_pk (replicate 32 1)
        (replicate 32 2) demo_master_key 2 = ((Success, demo_envelope), 3)
   \<and> length demo_record = 208
   \<and> take 32 (drop 32 demo_response) = demo_responder_pk
   \<and> take 32 demo_record = demo_responder_pk
   \<and> drop 32 demo_record = Envelope_bytes demo_envelope
   \<and> length (Envelope_bytes demo_envelope) = 176"
proof -
  have l: "length demo_response = 96" "length demo_master_key = 32"
    by (simp_all add: demo_registration_lengths)
  have a: "take 32 (drop 32 demo_response) = demo_responder_pk"
    by (simp add: demo_registration)
  have b: "take 32 demo_record = demo_responder_pk"
    "drop 32 demo_record = Envelope_bytes demo_envelope"
    by (simp_all add: demo_record_def demo_responder_pk_def)
  from finalize_registration_record [OF demo_seal_sized l demo_finalize_registration]
  have "length demo_record = 208"
    "\<exists>env. length (Envelope_bytes env) = 176 \<and> drop 32 demo_record = Envelope_bytes env"
    by blast+
  then show ?thesis
    using l a b demo_seal_sized demo_finalize_registration demo_create_registration_request
      demo_seal
    by auto
qed

end
